theory Spec2Isabelle
  imports Main "HOL-Library.Sublist" "HOL-Library.Multiset"
begin

section \<open>Python values\<close>

text \<open>
  A Python \<open>str\<close> is a sequence of Unicode code points, and \<open>str.isalnum\<close>,
  \<open>str.rstrip\<close> and iteration all work on code points. A string is therefore a
  list of code points (natural numbers), not a list of bytes. Literals of the source are
  written with \<open>lit\<close>.
\<close>

type_synonym codepoint = nat
type_synonym pystr = "codepoint list"

definition cp :: "char \<Rightarrow> codepoint" where
  "cp c = of_char c"

definition lit :: "string \<Rightarrow> pystr" where
  "lit s = map cp s"

text \<open>
  Every exception of the program derives from Python's \<open>Exception\<close>:
  \<open>TypeError\<close> (iterating or joining a value that is not a string), \<open>KeyError\<close> (a column
  that the frame does not have), \<open>IndexError\<close>, and \<open>Raised m\<close> for an exception
  with message \<open>m\<close> that one of the libraries raises.
\<close>

datatype pyexn = TypeError | KeyError | IndexError | Raised pystr

definition bind_exn :: "pyexn + 'a \<Rightarrow> ('a \<Rightarrow> pyexn + 'b) \<Rightarrow> pyexn + 'b" where
  "bind_exn m f = (case m of Inl e \<Rightarrow> Inl e | Inr x \<Rightarrow> f x)"

text \<open>\<open>try: body  except Exception as e: handler e\<close>.\<close>

definition try_except :: "pyexn + 'a \<Rightarrow> (pyexn \<Rightarrow> pyexn + 'a) \<Rightarrow> pyexn + 'a" where
  "try_except body handler = (case body of Inl e \<Rightarrow> handler e | Inr x \<Rightarrow> Inr x)"

text \<open>
  A cell of a pandas frame: missing (\<open>NaN\<close>, for which \<open>pd.isna\<close> holds), a Python
  string, or any other object (a number, a timestamp, a boolean), of which the program
  only uses equality and \<open>str()\<close>.
\<close>

datatype 'v cell = NaN | Str pystr | Obj 'v

text \<open>
  A column label: the header cell as \<open>read_excel\<close> keeps it, a string or, for a
  numeric or date header, another object.
\<close>

datatype 'v label = StrLabel pystr | ObjLabel 'v

text \<open>What reportlab is handed: the title paragraph, the time-stamp paragraph and the
  rows of the table.\<close>

record document =
  title_text :: pystr
  timestamp_text :: pystr
  table_data :: "pystr list list"

text \<open>
  The program's surroundings, which the source reaches through imports and globals:
  the flag \<open>BIDI_SUPPORT\<close> set once at import time; the three library calls of the
  shaper (\<open>ArabicReshaper(configuration).reshape\<close>, \<open>arabic_reshaper.reshape\<close>,
  \<open>get_display\<close>), each of which may raise; the Unicode table behind
  \<open>str.isalnum\<close> beyond ASCII; Python's \<open>str()\<close> on a cell that is not a string;
  the two title labels; the formatted clock reading; and reportlab's
  \<open>Paragraph\<close>/\<open>Table\<close>/\<open>doc.build\<close>, which write the file or raise.
\<close>

record 'v env =
  BIDI_SUPPORT :: bool
  ArabicReshaper_reshape :: "(string \<times> bool) list \<Rightarrow> pystr \<Rightarrow> pyexn + pystr"
  arabic_reshaper_reshape :: "pystr \<Rightarrow> pyexn + pystr"
  get_display :: "pystr \<Rightarrow> pyexn + pystr"
  unicode_isalnum :: "codepoint \<Rightarrow> bool"
  str_of :: "'v \<Rightarrow> pystr"
  report_label :: pystr
  date_label :: pystr
  now_strftime :: pystr
  doc_build :: "pystr \<Rightarrow> document \<Rightarrow> pyexn option"

section \<open>String operations of the Python runtime\<close>

text \<open>\<open>str.isspace\<close> on one code point: CPython's table of white space.\<close>

definition isspace :: "codepoint \<Rightarrow> bool" where
  "isspace c =
     ((9 \<le> c \<and> c \<le> 13) \<or> (28 \<le> c \<and> c \<le> 32) \<or> c = 133 \<or> c = 160 \<or> c = 5760
      \<or> (8192 \<le> c \<and> c \<le> 8202) \<or> c = 8232 \<or> c = 8233 \<or> c = 8239 \<or> c = 8287
      \<or> c = 12288)"

text \<open>\<open>str.isalnum\<close> on one code point: letters and digits in ASCII, the Unicode
  table of the environment beyond.\<close>

definition isalnum :: "'v env \<Rightarrow> codepoint \<Rightarrow> bool" where
  "isalnum E c =
     (if c < 128
      then (48 \<le> c \<and> c \<le> 57) \<or> (65 \<le> c \<and> c \<le> 90) \<or> (97 \<le> c \<and> c \<le> 122)
      else unicode_isalnum E c)"

text \<open>\<open>str.rstrip()\<close>: drop the trailing white space.\<close>

definition rstrip :: "pystr \<Rightarrow> pystr" where
  "rstrip s = rev (dropWhile isspace (rev s))"

text \<open>\<open>sep.join(xs)\<close>.\<close>

fun join :: "pystr \<Rightarrow> pystr list \<Rightarrow> pystr" where
  "join sep [] = []"
| "join sep [x] = x"
| "join sep (x # y # ys) = x @ sep @ join sep (y # ys)"

text \<open>\<open>os.path.join(a, b)\<close> with two components (\<open>posixpath\<close>).\<close>

definition os_path_join :: "pystr \<Rightarrow> pystr \<Rightarrow> pystr" where
  "os_path_join a b =
     (if take 1 b = lit ''/'' then b
      else if a = [] \<or> (a \<noteq> [] \<and> last a = cp CHR ''/'') then a @ b
      else a @ lit ''/'' @ b)"

section \<open>The text shaper: \<open>fix_persian_text\<close>\<close>

definition configuration :: "(string \<times> bool) list" where
  "configuration =
     [(''delete_harakat'', False), (''support_ligatures'', True), (''RIAL SIGN'', True)]"

text \<open>
  The argument is \<open>None\<close> or a string (\<open>str(text)\<close> is the identity on a string).
  The result type keeps the exception a caller would see, so that "never raises" is a
  statement about the function and not about its type.
\<close>

definition fix_persian_text :: "'v env \<Rightarrow> pystr option \<Rightarrow> pyexn + pystr" where
  "fix_persian_text E text =
     (case text of
        None \<Rightarrow> Inr []
      | Some t \<Rightarrow>
          if \<not> BIDI_SUPPORT E then Inr t
          else
            try_except
              (bind_exn (ArabicReshaper_reshape E configuration t) (get_display E))
              (\<lambda>e. try_except
                     (bind_exn (arabic_reshaper_reshape E t) (get_display E))
                     (\<lambda>e'. Inr t)))"

section \<open>File names\<close>

text \<open>Line 122 on a string:
  \<open>"".join(c for c in person_name if c.isalnum() or c in (' ', '-', '_')).rstrip()\<close>.\<close>

definition keeps :: "'v env \<Rightarrow> codepoint \<Rightarrow> bool" where
  "keeps E c = (isalnum E c \<or> c \<in> set [cp CHR '' '', cp CHR ''-'', cp CHR ''_''])"

definition sanitize :: "'v env \<Rightarrow> pystr \<Rightarrow> pystr" where
  "sanitize E person_name = rstrip (filter (keeps E) person_name)"

text \<open>The same line on a key of the frame: iterating anything but a string raises.\<close>

definition safe_filename :: "'v env \<Rightarrow> 'v cell \<Rightarrow> pyexn + pystr" where
  "safe_filename E person_name =
     (case person_name of Str s \<Rightarrow> Inr (sanitize E s) | _ \<Rightarrow> Inl TypeError)"

definition pdf_filename :: "pystr \<Rightarrow> pystr \<Rightarrow> pystr" where
  "pdf_filename output_dir safe = os_path_join output_dir (safe @ lit ''.pdf'')"

section \<open>Frames\<close>

text \<open>
  A pandas \<open>DataFrame\<close>: the column labels and the rows, each row with its index
  label and one cell per column. A \<open>Series\<close> is a list of labelled values.
  \<open>wf_df\<close> is what every frame pandas builds satisfies: the rows are as wide as the
  header, and (after \<open>read_excel\<close>, which renames repeated headers) the column
  labels differ.
\<close>

type_synonym 'v row = "nat \<times> 'v cell list"
type_synonym 'v series = "(nat \<times> 'v cell) list"

record 'v dataframe =
  columns :: "'v label list"
  rows :: "'v row list"

definition wf_df :: "'v dataframe \<Rightarrow> bool" where
  "wf_df df =
     (distinct (columns df) \<and> list_all (\<lambda>r. length (snd r) = length (columns df)) (rows df))"

fun index_of :: "'a \<Rightarrow> 'a list \<Rightarrow> nat option" where
  "index_of x [] = None"
| "index_of x (y # ys) = (if x = y then Some 0 else map_option Suc (index_of x ys))"

text \<open>\<open>df[col]\<close>: the column as a series, or \<open>KeyError\<close>.\<close>

definition getitem :: "'v dataframe \<Rightarrow> 'v label \<Rightarrow> pyexn + 'v series" where
  "getitem df col =
     (case index_of col (columns df) of
        None \<Rightarrow> Inl KeyError
      | Some p \<Rightarrow> Inr (map (\<lambda>r. (fst r, snd r ! p)) (rows df)))"

definition dropna :: "'v series \<Rightarrow> 'v series" where
  "dropna s = filter (\<lambda>iv. snd iv \<noteq> NaN) s"

text \<open>\<open>Series.unique()\<close>: a hash table of the values seen, each value appended at its
  first occurrence.\<close>

fun unique_from :: "'a list \<Rightarrow> 'a list \<Rightarrow> 'a list" where
  "unique_from seen [] = seen"
| "unique_from seen (x # xs) =
     (if x \<in> set seen then unique_from seen xs else unique_from (seen @ [x]) xs)"

definition unique :: "'v series \<Rightarrow> 'v cell list" where
  "unique s = unique_from [] (map snd s)"

text \<open>\<open>series == name\<close>, element by element; a missing value equals nothing.\<close>

definition series_eq :: "'v series \<Rightarrow> 'v cell \<Rightarrow> (nat \<times> bool) list" where
  "series_eq s name = map (\<lambda>iv. (fst iv, snd iv \<noteq> NaN \<and> snd iv = name)) s"

text \<open>\<open>df[mask]\<close>: the rows where the mask holds, labels and order kept.\<close>

definition getitem_mask :: "'v dataframe \<Rightarrow> (nat \<times> bool) list \<Rightarrow> 'v dataframe" where
  "getitem_mask df msk =
     df\<lparr>rows := map fst (filter (\<lambda>rm. snd (snd rm)) (zip (rows df) msk))\<rparr>"

text \<open>\<open>series.iloc[0]\<close>.\<close>

definition iloc0 :: "'v series \<Rightarrow> pyexn + 'v cell" where
  "iloc0 s = (case s of [] \<Rightarrow> Inl IndexError | iv # rest \<Rightarrow> Inr (snd iv))"

text \<open>Python's \<open>str(col)\<close> on a column label, and \<open>str(value)\<close> on a cell.\<close>

definition str_label :: "'v env \<Rightarrow> 'v label \<Rightarrow> pystr" where
  "str_label E col = (case col of StrLabel s \<Rightarrow> s | ObjLabel x \<Rightarrow> str_of E x)"

definition str_value :: "'v env \<Rightarrow> 'v cell \<Rightarrow> pystr" where
  "str_value E v = (case v of Str s \<Rightarrow> s | Obj x \<Rightarrow> str_of E x | NaN \<Rightarrow> lit ''nan'')"

section \<open>Grouping (lines 421 and 434 of \<open>process_conversion\<close>)\<close>

text \<open>\<open>unique_names = df[name_column].dropna().unique()\<close>; the name of the key
  column is the string typed into the settings.\<close>

definition unique_names :: "'v dataframe \<Rightarrow> pystr \<Rightarrow> pyexn + 'v cell list" where
  "unique_names df name_column =
     bind_exn (getitem df (StrLabel name_column)) (\<lambda>s. Inr (unique (dropna s)))"

text \<open>\<open>person_data = df[df[name_column] == name]\<close>.\<close>

definition group_rows :: "'v dataframe \<Rightarrow> pystr \<Rightarrow> 'v cell \<Rightarrow> pyexn + 'v dataframe" where
  "group_rows df name_column name =
     bind_exn (getitem df (StrLabel name_column))
       (\<lambda>s. Inr (getitem_mask df (series_eq s name)))"

text \<open>The groups the loop of \<open>process_conversion\<close> walks through: each unique name with
  its frame, in the order of the names.\<close>

fun collect_groups ::
  "'v dataframe \<Rightarrow> pystr \<Rightarrow> 'v cell list \<Rightarrow> pyexn + ('v cell \<times> 'v dataframe) list" where
  "collect_groups df name_column [] = Inr []"
| "collect_groups df name_column (name # names) =
     bind_exn (group_rows df name_column name) (\<lambda>person_data.
     bind_exn (collect_groups df name_column names) (\<lambda>rest.
       Inr ((name, person_data) # rest)))"

definition grouping :: "'v dataframe \<Rightarrow> pystr \<Rightarrow> pyexn + ('v cell \<times> 'v dataframe) list" where
  "grouping df name_column =
     bind_exn (unique_names df name_column) (collect_groups df name_column)"

section \<open>The renderer: \<open>create_pdf_for_person\<close>\<close>

text \<open>Lines 183 and 202:
  \<open>value = person_data[col].iloc[0] if not person_data[col].empty else ''\<close>.\<close>

definition first_value :: "'v dataframe \<Rightarrow> 'v label \<Rightarrow> pyexn + 'v cell" where
  "first_value person_data col =
     bind_exn (getitem person_data col) (\<lambda>s. if s \<noteq> [] then iloc0 s else Inr (Str []))"

text \<open>Lines 184 to 189: a missing value becomes \<open>'-'\<close>, then \<open>str(value)\<close>.\<close>

definition display_text :: "'v env \<Rightarrow> 'v cell \<Rightarrow> pystr" where
  "display_text E v = str_value E (if v = NaN then Str (lit ''-'') else v)"

text \<open>Lines 182 to 191, the loop of the vertical layout; \<open>table_data\<close> is the
  accumulator. \<open>fix_persian_text(col)\<close> starts with \<open>str(col)\<close>.\<close>

fun vertical_loop ::
  "'v env \<Rightarrow> 'v dataframe \<Rightarrow> pystr list list \<Rightarrow> 'v label list \<Rightarrow>
     pyexn + pystr list list" where
  "vertical_loop E person_data acc [] = Inr acc"
| "vertical_loop E person_data acc (col # cols) =
     bind_exn (first_value person_data col) (\<lambda>v.
     bind_exn (fix_persian_text E (Some (str_label E col))) (\<lambda>col_fixed.
     bind_exn (fix_persian_text E (Some (display_text E v))) (\<lambda>value_fixed.
       vertical_loop E person_data (acc @ [[value_fixed, col_fixed]]) cols)))"

text \<open>Lines 197 to 205, the loop of the horizontal layout, with its two accumulators.\<close>

fun horizontal_loop ::
  "'v env \<Rightarrow> 'v dataframe \<Rightarrow> pystr list \<Rightarrow> pystr list \<Rightarrow> 'v label list \<Rightarrow>
     pyexn + (pystr list \<times> pystr list)" where
  "horizontal_loop E person_data headers vals [] = Inr (headers, vals)"
| "horizontal_loop E person_data headers vals (col # cols) =
     bind_exn (fix_persian_text E (Some (str_label E col))) (\<lambda>h.
     bind_exn (first_value person_data col) (\<lambda>v.
     bind_exn (fix_persian_text E (Some (display_text E v))) (\<lambda>value_fixed.
       horizontal_loop E person_data (headers @ [h]) (vals @ [value_fixed]) cols)))"

definition vertical_layout ::
  "'v env \<Rightarrow> 'v dataframe \<Rightarrow> 'v label list \<Rightarrow> pyexn + pystr list list" where
  "vertical_layout E person_data cols = vertical_loop E person_data [] cols"

definition horizontal_layout ::
  "'v env \<Rightarrow> 'v dataframe \<Rightarrow> 'v label list \<Rightarrow> pyexn + pystr list list" where
  "horizontal_layout E person_data cols =
     bind_exn (horizontal_loop E person_data [] [] cols) (\<lambda>hv.
       Inr [rev (fst hv), rev (snd hv)])"

text \<open>Lines 180 to 211.\<close>

definition make_table_data ::
  "'v env \<Rightarrow> 'v dataframe \<Rightarrow> 'v label list \<Rightarrow> pyexn + pystr list list" where
  "make_table_data E person_data cols =
     (if length cols > 10 then vertical_layout E person_data cols
      else horizontal_layout E person_data cols)"

text \<open>
  The whole function. The file name comes first (line 122), then the title and the
  time stamp, then the table; the calls into reportlab come last and either write the
  file, whose path is returned, or raise.
\<close>

definition create_pdf_for_person ::
  "'v env \<Rightarrow> 'v dataframe \<Rightarrow> 'v cell \<Rightarrow> pystr \<Rightarrow> 'v label list \<Rightarrow> pyexn + pystr" where
  "create_pdf_for_person E person_data person_name output_dir cols =
     bind_exn (safe_filename E person_name) (\<lambda>safe.
     bind_exn (fix_persian_text E (Some (report_label E))) (\<lambda>title_persian.
     bind_exn (fix_persian_text E (Some (str_value E person_name))) (\<lambda>name_persian.
     bind_exn (fix_persian_text E (Some (date_label E))) (\<lambda>date_persian.
     bind_exn (make_table_data E person_data cols) (\<lambda>td.
       case doc_build E (pdf_filename output_dir safe)
              \<lparr>title_text = title_persian @ lit '': '' @ name_persian,
               timestamp_text = date_persian @ lit '': '' @ now_strftime E,
               table_data = td\<rparr> of
         Some e \<Rightarrow> Inl e
       | None \<Rightarrow> Inr (pdf_filename output_dir safe))))))"

section \<open>The batch: \<open>process_conversion\<close>\<close>

record conversion =
  success_count :: nat
  error_count :: nat
  written :: "pystr list"

text \<open>What the user is shown: the column-not-found dialog with its message; nothing,
  because the queued callback that builds that message raised; the dialog of the outer
  handler, for another exception; or the summary of a batch that ran to its end with
  these counts.\<close>

datatype outcome =
  ColumnNotFound pystr | DialogFailed pyexn | Failed pyexn | Complete conversion

text \<open>\<open>', '.join(df.columns)\<close>: \<open>str.join\<close> takes strings only and raises
  \<open>TypeError\<close> at the first item that is not one.\<close>

fun str_items :: "'v label list \<Rightarrow> pyexn + pystr list" where
  "str_items [] = Inr []"
| "str_items (StrLabel s # cols) = bind_exn (str_items cols) (\<lambda>ss. Inr (s # ss))"
| "str_items (ObjLabel x # cols) = Inl TypeError"

definition join_columns :: "pystr \<Rightarrow> 'v label list \<Rightarrow> pyexn + pystr" where
  "join_columns sep cols = bind_exn (str_items cols) (\<lambda>ss. Inr (join sep ss))"

text \<open>Lines 414 to 417: the formatted string of the callback queued with
  \<open>root.after\<close>.\<close>

definition column_not_found_message :: "pystr \<Rightarrow> 'v label list \<Rightarrow> pyexn + pystr" where
  "column_not_found_message name_column cols =
     bind_exn (join_columns (lit '', '') cols) (\<lambda>available.
       Inr (lit ''Column '' @ [cp (CHR 0x27)] @ name_column @ [cp (CHR 0x27)]
              @ lit '' not found.'' @ [cp (CHR 0x0A)] @ lit ''Available columns: ''
              @ available))"

text \<open>One turn of the loop, lines 434 to 442: the filter is outside the \<open>try\<close>, the
  render inside.\<close>

definition process_person ::
  "'v env \<Rightarrow> 'v dataframe \<Rightarrow> pystr \<Rightarrow> pystr \<Rightarrow> conversion \<Rightarrow> 'v cell \<Rightarrow> pyexn + conversion" where
  "process_person E df name_column output_dir st name =
     bind_exn (group_rows df name_column name) (\<lambda>person_data.
       Inr (case create_pdf_for_person E person_data name output_dir (columns df) of
              Inr path \<Rightarrow>
                st\<lparr>success_count := success_count st + 1, written := written st @ [path]\<rparr>
            | Inl e \<Rightarrow> st\<lparr>error_count := error_count st + 1\<rparr>))"

fun process_loop ::
  "'v env \<Rightarrow> 'v dataframe \<Rightarrow> pystr \<Rightarrow> pystr \<Rightarrow> conversion \<Rightarrow> 'v cell list \<Rightarrow>
     pyexn + conversion" where
  "process_loop E df name_column output_dir st [] = Inr st"
| "process_loop E df name_column output_dir st (name # names) =
     bind_exn (process_person E df name_column output_dir st name) (\<lambda>st'.
       process_loop E df name_column output_dir st' names)"

text \<open>Lines 409 to 442 and the outer handler; \<open>loaded\<close> is what \<open>read_excel_file\<close>
  returned or raised.\<close>

definition process_conversion ::
  "'v env \<Rightarrow> pyexn + 'v dataframe \<Rightarrow> pystr \<Rightarrow> pystr \<Rightarrow> outcome" where
  "process_conversion E loaded name_column output_dir =
     (case loaded of
        Inl e \<Rightarrow> Failed e
      | Inr df \<Rightarrow>
          if StrLabel name_column \<notin> set (columns df)
          then
            (case column_not_found_message name_column (columns df) of
               Inl e \<Rightarrow> DialogFailed e
             | Inr message \<Rightarrow> ColumnNotFound message)
          else
            (case bind_exn (unique_names df name_column)
                    (process_loop E df name_column output_dir
                       \<lparr>success_count = 0, error_count = 0, written = []\<rparr>) of
               Inl e \<Rightarrow> Failed e
             | Inr st \<Rightarrow> Complete st))"

text \<open>Helpers of the statements: the string the shaper returns, and how often a string
  occurs in another.\<close>

definition shape :: "'v env \<Rightarrow> pystr \<Rightarrow> pystr" where
  "shape E s = (case fix_persian_text E (Some s) of Inr r \<Rightarrow> r | Inl e \<Rightarrow> s)"

definition occurrences :: "'a list \<Rightarrow> 'a list \<Rightarrow> nat" where
  "occurrences xs ys =
     length (filter (\<lambda>i. take (length xs) (drop i ys) = xs) [0..<Suc (length ys - length xs)])"

section \<open>Sample inputs\<close>

text \<open>An environment without shaping support in which reportlab always succeeds, and
  the same environment with a fault injected into the build of one file. An object cell
  carries its own \<open>str()\<close>.\<close>

definition sample_env :: "pystr env" where
  "sample_env =
     \<lparr>BIDI_SUPPORT = False,
      ArabicReshaper_reshape = (\<lambda>c t. Inr t),
      arabic_reshaper_reshape = (\<lambda>t. Inr t),
      get_display = (\<lambda>t. Inr t),
      unicode_isalnum = (\<lambda>c. False),
      str_of = (\<lambda>v. v),
      report_label = lit ''Report'',
      date_label = lit ''Date'',
      now_strftime = lit ''2024-01-01 10:30'',
      doc_build = (\<lambda>p d. None)\<rparr>"

definition faulty_env :: "pystr env" where
  "faulty_env =
     sample_env\<lparr>doc_build :=
       (\<lambda>p d. if p = lit ''out/Bob.pdf'' then Some (Raised (lit ''disk full'')) else None)\<rparr>"

text \<open>The table of the specification's end-to-end scenario, with two more rows: one
  whose key is missing, and one with a missing value.\<close>

definition people :: "pystr dataframe" where
  "people =
     \<lparr>columns = [StrLabel (lit ''name''), StrLabel (lit ''age''), StrLabel (lit ''city'')],
      rows = [(0, [Str (lit ''Alice''), Obj (lit ''30''), Str (lit ''NY'')]),
              (1, [Str (lit ''Bob''), Obj (lit ''25''), Str (lit ''LA'')]),
              (2, [Str (lit ''Alice''), Obj (lit ''31''), Str (lit ''SF'')]),
              (3, [NaN, Obj (lit ''40''), NaN]),
              (4, [Str (lit ''Carol''), NaN, Str (lit ''TX'')])]\<rparr>"

text \<open>A table in which one column name is part of another.\<close>

definition contacts :: "pystr dataframe" where
  "contacts =
     \<lparr>columns = [StrLabel (lit ''name''), StrLabel (lit ''nickname'')],
      rows = [(0, [Str (lit ''Alice''), Str (lit ''Al'')])]\<rparr>"

text \<open>A table with a numeric header, the year 2024.\<close>

definition sales :: "pystr dataframe" where
  "sales =
     \<lparr>columns = [StrLabel (lit ''name''), ObjLabel (lit ''2024'')],
      rows = [(0, [Str (lit ''Alice''), Obj (lit ''17'')])]\<rparr>"

text \<open>A one-row table with \<open>n\<close> columns \<open>cA\<close>, \<open>cB\<close>, ... holding \<open>a\<close>, \<open>b\<close>, ...\<close>

definition wide :: "nat \<Rightarrow> pystr dataframe" where
  "wide n =
     \<lparr>columns = map (\<lambda>i. StrLabel [cp CHR ''c'', 65 + i]) [0..<n],
      rows = [(0, map (\<lambda>i. Obj [97 + i]) [0..<n])]\<rparr>"

lemmas eval_defs =
  bind_exn_def try_except_def lit_def cp_def isspace_def isalnum_def rstrip_def
  os_path_join_def configuration_def fix_persian_text_def keeps_def sanitize_def
  safe_filename_def pdf_filename_def wf_df_def getitem_def dropna_def unique_def
  series_eq_def getitem_mask_def iloc0_def str_value_def str_label_def unique_names_def
  group_rows_def join_columns_def
  grouping_def first_value_def display_text_def vertical_layout_def horizontal_layout_def
  make_table_data_def create_pdf_for_person_def column_not_found_message_def
  process_person_def process_conversion_def shape_def sample_env_def people_def

section \<open>The text shaper\<close>

lemma fix_persian_text_total: "\<exists>s. fix_persian_text E text = Inr s"
  by (auto simp: fix_persian_text_def try_except_def bind_exn_def
      split: option.splits sum.splits)

lemma fix_persian_text_shape: "fix_persian_text E (Some s) = Inr (shape E s)"
  using fix_persian_text_total [of E "Some s"] by (auto simp: shape_def)

lemma shape_without_bidi: "\<not> BIDI_SUPPORT E \<Longrightarrow> shape E s = s"
  by (simp add: shape_def fix_persian_text_def)

text \<open>
  Claim C7. The text shaper never raises: whatever the argument (\<open>None\<close>, the empty
  string, any string) and whatever the reshaping and bidi libraries do, including
  raising at either attempt, \<open>fix_persian_text\<close> returns a string; and \<open>None\<close> is
  mapped to the empty string.
\<close>

theorem fix_persian_text_never_raises:
  "(\<exists>s. fix_persian_text E text = Inr s) \<and> fix_persian_text E None = Inr []"
  by (simp add: fix_persian_text_total) (simp add: fix_persian_text_def)

text \<open>
  Claim C8. When the capability flag \<open>BIDI_SUPPORT\<close> is false the shaper is the
  identity on strings, hence idempotent: shaping \<open>x\<close> returns \<open>x\<close>, and shaping the
  result again returns the same.
\<close>

theorem fix_persian_text_identity_without_bidi:
  "\<not> BIDI_SUPPORT E \<Longrightarrow>
     fix_persian_text E (Some x) = Inr x \<and>
     bind_exn (fix_persian_text E (Some x)) (\<lambda>y. fix_persian_text E (Some y))
       = fix_persian_text E (Some x) \<and>
     shape E (shape E x) = shape E x \<and> shape E x = x"
  by (simp add: fix_persian_text_def bind_exn_def shape_def)

theorem fix_persian_text_identity_without_bidi_witness:
  "\<not> BIDI_SUPPORT sample_env \<and>
   fix_persian_text sample_env (Some (lit ''abc'')) = Inr (lit ''abc'') \<and>
   shape sample_env (shape sample_env (lit ''abc'')) = lit ''abc''"
  using fix_persian_text_identity_without_bidi [of sample_env "lit ''abc''"]
  by (simp add: sample_env_def)

section \<open>File names\<close>

lemma rstrip_last: "rstrip s \<noteq> [] \<Longrightarrow> \<not> isspace (last (rstrip s))"
proof -
  assume ne: "rstrip s \<noteq> []"
  then have d: "dropWhile isspace (rev s) \<noteq> []"
    by (simp add: rstrip_def)
  then have "\<not> isspace (hd (dropWhile isspace (rev s)))"
    by (rule hd_dropWhile)
  with d show ?thesis
    by (simp add: rstrip_def last_rev)
qed

lemma set_rstrip: "set (rstrip s) \<subseteq> set s"
  using set_dropWhileD [of _ isspace "rev s"] by (auto simp: rstrip_def)

lemma rstrip_Nil_iff: "rstrip s = [] \<longleftrightarrow> (\<forall>c\<in>set s. isspace c)"
  by (auto simp: rstrip_def)

lemma sanitize_Nil_iff: "sanitize E name = [] \<longleftrightarrow> (\<forall>c\<in>set name. keeps E c \<longrightarrow> isspace c)"
  by (auto simp: sanitize_def rstrip_Nil_iff)

lemma create_pdf_path:
  "create_pdf_for_person E pd (Str name) out cols = Inr p \<Longrightarrow>
     p = pdf_filename out (sanitize E name)"
  by (auto simp: create_pdf_for_person_def safe_filename_def bind_exn_def
      split: sum.splits option.splits)

text \<open>
  Claim C2, as amended. Sanitising an entity name is a function of the name (and of the
  Unicode table) that returns a result, without raising, on every string; the result
  holds only alphanumeric characters, spaces, hyphens and underscores, and does not end
  in white space. Leading white space is kept: only \<open>rstrip\<close> is applied.
\<close>

theorem sanitize_allowed_and_no_trailing_space:
  "safe_filename E (Str name) = Inr (sanitize E name) \<and>
   (\<forall>c \<in> set (sanitize E name).
      isalnum E c \<or> c = cp CHR '' '' \<or> c = cp CHR ''-'' \<or> c = cp CHR ''_'') \<and>
   (sanitize E name \<noteq> [] \<longrightarrow> \<not> isspace (last (sanitize E name)))"
  using set_rstrip [of "filter (keeps E) name"] rstrip_last [of "filter (keeps E) name"]
  by (auto simp: sanitize_def keeps_def safe_filename_def)

theorem sanitize_allowed_and_no_trailing_space_witness:
  "safe_filename sample_env (Str (lit '' Ali Reza! '')) = Inr (lit '' Ali Reza'') \<and>
   list_all (\<lambda>c. isalnum sample_env c \<or> c = cp CHR '' '' \<or> c = cp CHR ''-'' \<or> c = cp CHR ''_'')
     (sanitize sample_env (lit '' Ali Reza! '')) \<and>
   \<not> isspace (last (sanitize sample_env (lit '' Ali Reza! '')))"
  using sanitize_allowed_and_no_trailing_space [of sample_env "lit '' Ali Reza! ''"]
  by (simp add: safe_filename_def sanitize_def rstrip_def keeps_def isalnum_def isspace_def
      lit_def cp_def)

text \<open>The claim as stated fails: the name \<open>" a"\<close> is returned unchanged, and its first
  character is a space.\<close>

theorem sanitize_keeps_leading_space:
  "sanitize sample_env (lit '' a'') = lit '' a'' \<and>
   isspace (hd (sanitize sample_env (lit '' a'')))"
  by (simp add: sanitize_def rstrip_def keeps_def isalnum_def isspace_def lit_def cp_def)

text \<open>
  Claim C10. Some non-empty entity names sanitise to the empty string: exactly those
  all of whose kept characters are white space, among them every name made only of
  characters outside the allowed set and of spaces. For such a name the renderer's path
  is \<open>os.path.join(output_dir, ".pdf")\<close>, that is \<open>output_dir/.pdf\<close> for a directory
  written without a trailing slash, and any two such names give the same path.
\<close>

theorem sanitize_empty_name_collides:
  "(sanitize E name = [] \<longleftrightarrow> (\<forall>c\<in>set name. keeps E c \<longrightarrow> isspace c)) \<and>
   ((\<forall>c\<in>set name. \<not> keeps E c \<or> c = cp CHR '' '') \<longrightarrow> sanitize E name = []) \<and>
   (\<exists>nonempty. nonempty \<noteq> [] \<and> sanitize E nonempty = []) \<and>
   (sanitize E name = [] \<longrightarrow>
      safe_filename E (Str name) = Inr [] \<and>
      pdf_filename out (sanitize E name) = os_path_join out (lit ''.pdf'') \<and>
      (\<forall>pd cols p. create_pdf_for_person E pd (Str name) out cols = Inr p \<longrightarrow>
         p = os_path_join out (lit ''.pdf''))) \<and>
   (out \<noteq> [] \<and> last out \<noteq> cp CHR ''/''
      \<longrightarrow> os_path_join out (lit ''.pdf'') = out @ lit ''/.pdf'') \<and>
   (sanitize E name = [] \<and> sanitize E name' = [] \<longrightarrow>
      pdf_filename out (sanitize E name) = pdf_filename out (sanitize E name'))"
proof -
  have a: "sanitize E name = [] \<longleftrightarrow> (\<forall>c\<in>set name. keeps E c \<longrightarrow> isspace c)"
    by (rule sanitize_Nil_iff)
  have sp: "isspace (cp CHR '' '')"
    by (simp add: isspace_def cp_def)
  have b: "(\<forall>c\<in>set name. \<not> keeps E c \<or> c = cp CHR '' '') \<longrightarrow> sanitize E name = []"
    using sp by (auto simp: sanitize_Nil_iff)
  have "sanitize E (lit ''!'') = []"
    by (simp add: sanitize_def rstrip_def keeps_def isalnum_def lit_def cp_def)
  moreover have "lit ''!'' \<noteq> []"
    by (simp add: lit_def)
  ultimately have c: "\<exists>nonempty. nonempty \<noteq> [] \<and> sanitize E nonempty = []"
    by blast
  have d: "sanitize E name = [] \<longrightarrow>
      safe_filename E (Str name) = Inr [] \<and>
      pdf_filename out (sanitize E name) = os_path_join out (lit ''.pdf'') \<and>
      (\<forall>pd cols p. create_pdf_for_person E pd (Str name) out cols = Inr p \<longrightarrow>
         p = os_path_join out (lit ''.pdf''))"
    using create_pdf_path [of E _ name out]
    by (auto simp: safe_filename_def pdf_filename_def)
  have e: "out \<noteq> [] \<and> last out \<noteq> cp CHR ''/''
      \<longrightarrow> os_path_join out (lit ''.pdf'') = out @ lit ''/.pdf''"
    by (simp add: os_path_join_def lit_def cp_def)
  have f: "sanitize E name = [] \<and> sanitize E name' = [] \<longrightarrow>
      pdf_filename out (sanitize E name) = pdf_filename out (sanitize E name')"
    by simp
  from a b c d e f show ?thesis
    by blast
qed

theorem sanitize_empty_name_collides_witness:
  "lit ''#!?'' \<noteq> [] \<and> lit ''  '' \<noteq> [] \<and> lit ''#!?'' \<noteq> lit ''  '' \<and>
   sanitize sample_env (lit ''#!?'') = [] \<and> sanitize sample_env (lit ''  '') = [] \<and>
   create_pdf_for_person sample_env people (Str (lit ''#!?'')) (lit ''out'') (columns people)
     = Inr (lit ''out/.pdf'') \<and>
   create_pdf_for_person sample_env people (Str (lit ''  '')) (lit ''out'') (columns people)
     = Inr (lit ''out/.pdf'')"
  using sanitize_empty_name_collides [of sample_env "lit ''#!?''" "lit ''out''" "lit ''  ''"]
  by (simp add: eval_defs)

section \<open>Grouping\<close>

lemma index_of_Some:
  "x \<in> set xs \<Longrightarrow> \<exists>p. index_of x xs = Some p \<and> p < length xs \<and> xs ! p = x"
  by (induction xs) auto

lemma index_of_nth: "distinct xs \<Longrightarrow> i < length xs \<Longrightarrow> index_of (xs ! i) xs = Some i"
proof (induction xs arbitrary: i)
  case Nil
  then show ?case by simp
next
  case (Cons a xs)
  then show ?case by (cases i) auto
qed

lemma set_unique_from: "set (unique_from seen xs) = set seen \<union> set xs"
  by (induction seen xs rule: unique_from.induct) auto

lemma distinct_unique_from: "distinct seen \<Longrightarrow> distinct (unique_from seen xs)"
  by (induction seen xs rule: unique_from.induct) auto

lemma mask_rows:
  "map fst (filter (\<lambda>rm. snd (snd rm)) (zip xs (map (\<lambda>r. (fst r, P r)) xs))) = filter P xs"
  by (induction xs) auto

lemma group_rows_eq:
  "index_of (StrLabel K) (columns T) = Some p \<Longrightarrow>
   group_rows T K k =
     Inr (T\<lparr>rows := filter (\<lambda>r. snd r ! p \<noteq> NaN \<and> snd r ! p = k) (rows T)\<rparr>)"
  by (simp add: group_rows_def getitem_def bind_exn_def getitem_mask_def series_eq_def
      comp_def mask_rows)

lemma group_rows_total:
  "StrLabel nc \<in> set (columns df) \<Longrightarrow> \<exists>pd. group_rows df nc k = Inr pd"
  using index_of_Some [of "StrLabel nc" "columns df"]
  by (auto simp: group_rows_def getitem_def bind_exn_def)

lemma unique_names_eq:
  "index_of (StrLabel K) (columns T) = Some p \<Longrightarrow>
   unique_names T K =
     Inr (unique_from [] (filter (\<lambda>v. v \<noteq> NaN) (map (\<lambda>r. snd r ! p) (rows T))))"
  by (simp add: unique_names_def getitem_def bind_exn_def unique_def dropna_def filter_map
      comp_def)

lemma collect_groups_eq:
  "index_of (StrLabel K) (columns T) = Some p \<Longrightarrow>
   collect_groups T K names =
     Inr (map (\<lambda>k. (k, T\<lparr>rows := filter (\<lambda>r. snd r ! p \<noteq> NaN \<and> snd r ! p = k) (rows T)\<rparr>))
            names)"
  by (induction names) (simp_all add: group_rows_eq bind_exn_def)

lemma mset_concat_groups:
  "distinct names \<Longrightarrow>
   mset (concat (map (\<lambda>k. filter (\<lambda>r. Q r \<and> f r = k) xs) names)) =
   mset (filter (\<lambda>r. Q r \<and> f r \<in> set names) xs)"
proof (induction names)
  case Nil
  then show ?case by simp
next
  case (Cons k names)
  have "mset (filter (\<lambda>r. Q r \<and> f r = k) xs) + mset (filter (\<lambda>r. Q r \<and> f r \<in> set names) xs)
        = mset (filter (\<lambda>r. Q r \<and> f r \<in> set (k # names)) xs)"
    using Cons.prems by (induction xs) auto
  with Cons show ?case by simp
qed

text \<open>
  Claim C1. For a table \<open>T\<close> and a key column \<open>K\<close> among its columns, at position
  \<open>p\<close>, the grouping step (the unique non-missing keys, then for each key the rows whose
  \<open>K\<close>-cell equals it) succeeds and gives groups such that: the union of their rows is
  the set of the rows of \<open>T\<close> whose \<open>K\<close>-cell is not missing, and so with
  multiplicities; the rows of two different groups are disjoint; every row of a group
  has the group's key; each group keeps the columns of \<open>T\<close>; and there are as many
  groups as there are distinct non-missing \<open>K\<close>-values.
\<close>

theorem grouping_partitions_rows:
  assumes wf: "wf_df T" and K: "StrLabel K \<in> set (columns T)"
  shows "\<exists>p gs. index_of (StrLabel K) (columns T) = Some p \<and> p < length (columns T) \<and>
     columns T ! p = StrLabel K \<and> grouping T K = Inr gs \<and>
     (\<Union>g\<in>set gs. set (rows (snd g))) = {r \<in> set (rows T). snd r ! p \<noteq> NaN} \<and>
     mset (concat (map (\<lambda>g. rows (snd g)) gs))
       = mset (filter (\<lambda>r. snd r ! p \<noteq> NaN) (rows T)) \<and>
     (\<forall>i<length gs. \<forall>j<length gs. i \<noteq> j \<longrightarrow>
        set (rows (snd (gs ! i))) \<inter> set (rows (snd (gs ! j))) = {}) \<and>
     (\<forall>g\<in>set gs. columns (snd g) = columns T \<and> (\<forall>r\<in>set (rows (snd g)). snd r ! p = fst g)) \<and>
     distinct (map fst gs) \<and>
     set (map fst gs) = {v. v \<noteq> NaN \<and> (\<exists>r\<in>set (rows T). snd r ! p = v)} \<and>
     length gs = card {v. v \<noteq> NaN \<and> (\<exists>r\<in>set (rows T). snd r ! p = v)}"
proof -
  from index_of_Some [OF K] obtain p where
    p: "index_of (StrLabel K) (columns T) = Some p" "p < length (columns T)"
      "columns T ! p = StrLabel K"
    by blast
  define key where "key = (\<lambda>r :: 'a row. snd r ! p)"
  define names where "names = unique_from [] (filter (\<lambda>v. v \<noteq> NaN) (map key (rows T)))"
  define grp where "grp = (\<lambda>k. filter (\<lambda>r. key r \<noteq> NaN \<and> key r = k) (rows T))"
  define gs where "gs = map (\<lambda>k. (k, T\<lparr>rows := grp k\<rparr>)) names"
  have set_names: "set names = {v. v \<noteq> NaN \<and> (\<exists>r\<in>set (rows T). key r = v)}"
    by (auto simp: names_def set_unique_from)
  have dist: "distinct names"
    by (simp add: names_def distinct_unique_from)
  have g: "grouping T K = Inr gs"
    using p(1) by (simp add: grouping_def unique_names_eq collect_groups_eq bind_exn_def
        gs_def names_def grp_def key_def)
  have rows_gs: "map (\<lambda>g. rows (snd g)) gs = map grp names"
    by (simp add: gs_def comp_def)
  have fst_gs: "map fst gs = names"
    by (simp add: gs_def comp_def)
  have un: "(\<Union>g\<in>set gs. set (rows (snd g))) = {r \<in> set (rows T). key r \<noteq> NaN}"
    by (auto simp: gs_def grp_def set_names)
  have "mset (concat (map grp names))
      = mset (filter (\<lambda>r. key r \<noteq> NaN \<and> key r \<in> set names) (rows T))"
    unfolding grp_def using dist by (rule mset_concat_groups)
  also have "filter (\<lambda>r. key r \<noteq> NaN \<and> key r \<in> set names) (rows T)
      = filter (\<lambda>r. key r \<noteq> NaN) (rows T)"
    by (rule filter_cong) (auto simp: set_names)
  finally have ms: "mset (concat (map (\<lambda>g. rows (snd g)) gs))
      = mset (filter (\<lambda>r. key r \<noteq> NaN) (rows T))"
    by (simp add: rows_gs)
  have disj: "\<forall>i<length gs. \<forall>j<length gs. i \<noteq> j \<longrightarrow>
        set (rows (snd (gs ! i))) \<inter> set (rows (snd (gs ! j))) = {}"
  proof (intro allI impI)
    fix i j
    assume ij: "i < length gs" "j < length gs" "i \<noteq> j"
    then have "names ! i \<noteq> names ! j"
      using dist by (simp add: gs_def nth_eq_iff_index_eq)
    with ij show "set (rows (snd (gs ! i))) \<inter> set (rows (snd (gs ! j))) = {}"
      by (auto simp: gs_def grp_def)
  qed
  have own: "\<forall>g\<in>set gs. columns (snd g) = columns T \<and> (\<forall>r\<in>set (rows (snd g)). key r = fst g)"
    by (auto simp: gs_def grp_def)
  have len: "length gs = card {v. v \<noteq> NaN \<and> (\<exists>r\<in>set (rows T). key r = v)}"
    using distinct_card [OF dist] by (simp add: gs_def set_names)
  show ?thesis
    using p g un ms disj own dist set_names len fst_gs unfolding key_def
    by (intro exI [of _ p] exI [of _ gs]) simp
qed

theorem grouping_partitions_rows_witness:
  "wf_df people \<and> StrLabel (lit ''name'') \<in> set (columns people) \<and>
   grouping people (lit ''name'') =
     Inr [(Str (lit ''Alice''),
           people\<lparr>rows := [(0, [Str (lit ''Alice''), Obj (lit ''30''), Str (lit ''NY'')]),
                           (2, [Str (lit ''Alice''), Obj (lit ''31''), Str (lit ''SF'')])]\<rparr>),
          (Str (lit ''Bob''),
           people\<lparr>rows := [(1, [Str (lit ''Bob''), Obj (lit ''25''), Str (lit ''LA'')])]\<rparr>),
          (Str (lit ''Carol''),
           people\<lparr>rows := [(4, [Str (lit ''Carol''), NaN, Str (lit ''TX'')])]\<rparr>)]"
  using grouping_partitions_rows [of people "lit ''name''"]
  by (simp add: eval_defs)

section \<open>The table of a document\<close>

lemma first_value_Cons:
  "first_value (pd\<lparr>rows := r # rs\<rparr>) col =
     (case index_of col (columns pd) of
        None \<Rightarrow> Inl KeyError
      | Some p \<Rightarrow> Inr (snd r ! p))"
  by (simp add: first_value_def getitem_def bind_exn_def iloc0_def split: option.splits)


lemma first_value_total:
  "c \<in> set (columns pd) \<Longrightarrow> \<exists>v. first_value pd c = Inr v"
  using index_of_Some [of c "columns pd"]
  by (auto simp: first_value_def getitem_def bind_exn_def iloc0_def split: list.splits)





lemma vertical_loop_map:
  "(\<And>c. c \<in> set cols \<Longrightarrow> first_value pd c = Inr (fv c)) \<Longrightarrow>
   vertical_loop E pd acc cols =
     Inr (acc @ map (\<lambda>c. [shape E (display_text E (fv c)), shape E (str_label E c)]) cols)"
  by (induction cols arbitrary: acc) (simp_all add: bind_exn_def fix_persian_text_shape)

lemma horizontal_loop_map:
  "(\<And>c. c \<in> set cols \<Longrightarrow> first_value pd c = Inr (fv c)) \<Longrightarrow>
   horizontal_loop E pd hs vs cols =
     Inr (hs @ map (\<lambda>c. shape E (str_label E c)) cols,
          vs @ map (\<lambda>c. shape E (display_text E (fv c))) cols)"
  by (induction cols arbitrary: hs vs) (simp_all add: bind_exn_def fix_persian_text_shape)

lemma map_by_position:
  "distinct xs \<Longrightarrow>
   map (\<lambda>c. F (g (the (index_of c xs))) c) xs = map (\<lambda>i. F (g i) (xs ! i)) [0..<length xs]"
  by (rule nth_equalityI) (simp_all add: index_of_nth)

lemma vertical_loop_shape:
  "vertical_loop E pd acc cols = Inr t \<Longrightarrow>
   length t = length acc + length cols \<and> (\<forall>row\<in>set t. row \<in> set acc \<or> length row = 2)"
proof (induction cols arbitrary: acc)
  case Nil
  then show ?case by auto
next
  case (Cons c cols)
  then show ?case
    by (fastforce simp: bind_exn_def split: sum.splits)
qed

lemma horizontal_loop_shape:
  "horizontal_loop E pd hs vs cols = Inr hv \<Longrightarrow>
   length (fst hv) = length hs + length cols \<and> length (snd hv) = length vs + length cols"
proof (induction cols arbitrary: hs vs)
  case Nil
  then show ?case by auto
next
  case (Cons c cols)
  then show ?case
    by (fastforce simp: bind_exn_def split: sum.splits)
qed

lemma make_table_data_total:
  assumes "set cols \<subseteq> set (columns pd)"
  shows "\<exists>t. make_table_data E pd cols = Inr t"
proof -
  define fv where "fv = (\<lambda>c. projr (first_value pd c))"
  have fv: "first_value pd c = Inr (fv c)" if "c \<in> set cols" for c
  proof -
    from that assms obtain v where "first_value pd c = Inr v"
      using first_value_total [of c pd] by blast
    then show ?thesis
      by (simp add: fv_def)
  qed
  show ?thesis
    using vertical_loop_map [of cols pd fv E "[]"]
      horizontal_loop_map [of cols pd fv E "[]" "[]"] fv
    by (simp add: make_table_data_def vertical_layout_def horizontal_layout_def bind_exn_def)
qed

lemma wide_10:
  "wide 10 =
     \<lparr>columns = [StrLabel (lit ''cA''), StrLabel (lit ''cB''), StrLabel (lit ''cC''),
                 StrLabel (lit ''cD''), StrLabel (lit ''cE''), StrLabel (lit ''cF''),
                 StrLabel (lit ''cG''), StrLabel (lit ''cH''), StrLabel (lit ''cI''),
                 StrLabel (lit ''cJ'')],
      rows = [(0, [Obj (lit ''a''), Obj (lit ''b''), Obj (lit ''c''), Obj (lit ''d''),
                   Obj (lit ''e''), Obj (lit ''f''), Obj (lit ''g''), Obj (lit ''h''),
                   Obj (lit ''i''), Obj (lit ''j'')])]\<rparr>"
  by code_simp

lemma wide_11:
  "wide 11 =
     \<lparr>columns = [StrLabel (lit ''cA''), StrLabel (lit ''cB''), StrLabel (lit ''cC''),
                 StrLabel (lit ''cD''), StrLabel (lit ''cE''), StrLabel (lit ''cF''),
                 StrLabel (lit ''cG''), StrLabel (lit ''cH''), StrLabel (lit ''cI''),
                 StrLabel (lit ''cJ''), StrLabel (lit ''cK'')],
      rows = [(0, [Obj (lit ''a''), Obj (lit ''b''), Obj (lit ''c''), Obj (lit ''d''),
                   Obj (lit ''e''), Obj (lit ''f''), Obj (lit ''g''), Obj (lit ''h''),
                   Obj (lit ''i''), Obj (lit ''j''), Obj (lit ''k'')])]\<rparr>"
  by code_simp

text \<open>
  Claim C3. The layout is decided by the number of columns handed to the renderer, with
  the threshold strictly above ten: ten columns give the horizontal layout, a table of
  two rows (headers, values) of ten cells each; eleven columns give the vertical layout,
  a table of eleven rows of two cells each. When every column handed over is a column
  of the group's frame, the table is built without an error.
\<close>

theorem layout_threshold:
  "(length cols = 10 \<longrightarrow> make_table_data E pd cols = horizontal_layout E pd cols) \<and>
   (length cols = 11 \<longrightarrow> make_table_data E pd cols = vertical_layout E pd cols) \<and>
   make_table_data E pd cols =
     (if length cols \<le> 10 then horizontal_layout E pd cols else vertical_layout E pd cols) \<and>
   (\<forall>t. horizontal_layout E pd cols = Inr t \<longrightarrow>
      length t = 2 \<and> (\<forall>row\<in>set t. length row = length cols)) \<and>
   (\<forall>t. vertical_layout E pd cols = Inr t \<longrightarrow>
      length t = length cols \<and> (\<forall>row\<in>set t. length row = 2)) \<and>
   (set cols \<subseteq> set (columns pd) \<longrightarrow> (\<exists>t. make_table_data E pd cols = Inr t))"
proof -
  have h: "\<forall>t. horizontal_layout E pd cols = Inr t \<longrightarrow>
      length t = 2 \<and> (\<forall>row\<in>set t. length row = length cols)"
    using horizontal_loop_shape [of E pd "[]" "[]" cols]
    by (auto simp: horizontal_layout_def bind_exn_def split: sum.splits)
  have v: "\<forall>t. vertical_layout E pd cols = Inr t \<longrightarrow>
      length t = length cols \<and> (\<forall>row\<in>set t. length row = 2)"
    using vertical_loop_shape [of E pd "[]" cols]
    by (auto simp: vertical_layout_def)
  show ?thesis
    using h v make_table_data_total [of cols pd E]
    by (simp add: make_table_data_def)
qed

theorem layout_threshold_witness:
  "length (columns (wide 10)) = 10 \<and>
   make_table_data sample_env (wide 10) (columns (wide 10)) =
     Inr [[lit ''cJ'', lit ''cI'', lit ''cH'', lit ''cG'', lit ''cF'', lit ''cE'', lit ''cD'',
           lit ''cC'', lit ''cB'', lit ''cA''],
          [lit ''j'', lit ''i'', lit ''h'', lit ''g'', lit ''f'', lit ''e'', lit ''d'',
           lit ''c'', lit ''b'', lit ''a'']] \<and>
   length (columns (wide 11)) = 11 \<and>
   make_table_data sample_env (wide 11) (columns (wide 11)) =
     Inr [[lit ''a'', lit ''cA''], [lit ''b'', lit ''cB''], [lit ''c'', lit ''cC''],
          [lit ''d'', lit ''cD''], [lit ''e'', lit ''cE''], [lit ''f'', lit ''cF''],
          [lit ''g'', lit ''cG''], [lit ''h'', lit ''cH''], [lit ''i'', lit ''cI''],
          [lit ''j'', lit ''cJ''], [lit ''k'', lit ''cK'']]"
  using layout_threshold [of "columns (wide 10)" sample_env "wide 10"]
    layout_threshold [of "columns (wide 11)" sample_env "wide 11"]
  by (simp add: wide_10 wide_11 eval_defs)



text \<open>
  Claim C5. For a render request (a well-formed group frame with first row \<open>r\<close>, and the
  frame's own column list): with more than ten columns the table has one row per column,
  in the columns' order, each row the shaped value followed by the shaped column name
  (the \<open>str()\<close> of the label, the label itself when it is a string);
  otherwise the table is the row of shaped headers and the row of shaped values, both
  in reversed column order. The text of a missing cell is the single character
  \<open>-\<close>, which is what the shaper is given; it is drawn as it is without shaping
  support, and with it whenever the reshaper and the bidi algorithm leave \<open>-\<close> alone.
\<close>

theorem table_layouts:
  assumes wf: "wf_df pd" and r: "rows pd = r # rs" and cols: "cols = columns pd"
  shows "(10 < length cols \<longrightarrow>
            make_table_data E pd cols =
              Inr (map (\<lambda>i. [shape E (display_text E (snd r ! i)),
                             shape E (str_label E (cols ! i))])
                     [0..<length cols])) \<and>
         (length cols \<le> 10 \<longrightarrow>
            make_table_data E pd cols =
              Inr [rev (map (\<lambda>i. shape E (str_label E (cols ! i))) [0..<length cols]),
                   rev (map (\<lambda>i. shape E (display_text E (snd r ! i))) [0..<length cols])]) \<and>
         (\<forall>i<length cols. snd r ! i = NaN \<longrightarrow> display_text E (snd r ! i) = lit ''-'') \<and>
         (\<not> BIDI_SUPPORT E \<longrightarrow> shape E (lit ''-'') = lit ''-'') \<and>
         (ArabicReshaper_reshape E configuration (lit ''-'') = Inr (lit ''-'') \<and>
          get_display E (lit ''-'') = Inr (lit ''-'') \<longrightarrow> shape E (lit ''-'') = lit ''-'')"
proof -
  define fv where "fv = (\<lambda>c. snd r ! the (index_of c cols))"
  have dist: "distinct cols"
    using wf cols by (simp add: wf_df_def)
  have pd: "pd = pd\<lparr>rows := r # rs\<rparr>"
    using r by simp
  have fv: "first_value pd c = Inr (fv c)" if "c \<in> set cols" for c
  proof -
    from that obtain p where "index_of c (columns pd) = Some p"
      using index_of_Some [of c "columns pd"] cols by blast
    then show ?thesis
      using first_value_Cons [where pd = pd and r = r and rs = rs and col = c] pd
      by (simp add: fv_def cols)
  qed
  have v: "vertical_layout E pd cols =
      Inr (map (\<lambda>i. [shape E (display_text E (snd r ! i)), shape E (str_label E (cols ! i))])
             [0..<length cols])"
    using vertical_loop_map [of cols pd fv E "[]"] fv
      map_by_position [of cols "\<lambda>v c. [shape E (display_text E v), shape E (str_label E c)]"
        "\<lambda>i. snd r ! i"]
      dist
    by (simp add: vertical_layout_def fv_def)
  have h1: "map (\<lambda>c. shape E (str_label E c)) cols
      = map (\<lambda>i. shape E (str_label E (cols ! i))) [0..<length cols]"
    by (rule nth_equalityI) simp_all
  have h2: "map (\<lambda>c. shape E (display_text E (fv c))) cols =
      map (\<lambda>i. shape E (display_text E (snd r ! i))) [0..<length cols]"
    using map_by_position [of cols "\<lambda>v c. shape E (display_text E v)" "\<lambda>i. snd r ! i"] dist
    by (simp add: fv_def)
  have h: "horizontal_layout E pd cols =
      Inr [rev (map (\<lambda>i. shape E (str_label E (cols ! i))) [0..<length cols]),
           rev (map (\<lambda>i. shape E (display_text E (snd r ! i))) [0..<length cols])]"
    using horizontal_loop_map [of cols pd fv E "[]" "[]"] fv
    by (simp add: horizontal_layout_def bind_exn_def h1 h2)
  have d: "display_text E NaN = lit ''-''"
    by (simp add: display_text_def str_value_def)
  have l: "ArabicReshaper_reshape E configuration (lit ''-'') = Inr (lit ''-'') \<and>
          get_display E (lit ''-'') = Inr (lit ''-'') \<longrightarrow> shape E (lit ''-'') = lit ''-''"
    by (simp add: shape_def fix_persian_text_def try_except_def bind_exn_def)
  show ?thesis
    using v h d l by (simp add: make_table_data_def shape_without_bidi)
qed

theorem table_layouts_witness:
  "wf_df (people\<lparr>rows := [(4, [Str (lit ''Carol''), NaN, Str (lit ''TX'')])]\<rparr>) \<and>
   make_table_data sample_env
     (people\<lparr>rows := [(4, [Str (lit ''Carol''), NaN, Str (lit ''TX'')])]\<rparr>) (columns people) =
     Inr [[lit ''city'', lit ''age'', lit ''name''], [lit ''TX'', lit ''-'', lit ''Carol'']] \<and>
   wf_df (wide 11) \<and> 10 < length (columns (wide 11)) \<and>
   make_table_data sample_env (wide 11) (columns (wide 11)) =
     Inr [[lit ''a'', lit ''cA''], [lit ''b'', lit ''cB''], [lit ''c'', lit ''cC''],
          [lit ''d'', lit ''cD''], [lit ''e'', lit ''cE''], [lit ''f'', lit ''cF''],
          [lit ''g'', lit ''cG''], [lit ''h'', lit ''cH''], [lit ''i'', lit ''cI''],
          [lit ''j'', lit ''cJ''], [lit ''k'', lit ''cK'']]"
  using table_layouts [where E = sample_env
      and pd = "people\<lparr>rows := [(4, [Str (lit ''Carol''), NaN, Str (lit ''TX'')])]\<rparr>"
      and r = "(4, [Str (lit ''Carol''), NaN, Str (lit ''TX'')])" and rs = "[]"
      and cols = "columns people"]
    table_layouts [where E = sample_env and pd = "wide 11" and r = "hd (rows (wide 11))"
      and rs = "[]" and cols = "columns (wide 11)"]
  by (simp add: wide_11 eval_defs)

section \<open>The batch loop\<close>

lemma process_person_fail:
  "group_rows df nc k = Inr pd \<Longrightarrow>
   create_pdf_for_person E pd k out (columns df) = Inl e \<Longrightarrow>
   process_person E df nc out st k = Inr (st\<lparr>error_count := error_count st + 1\<rparr>)"
  by (simp add: process_person_def bind_exn_def)

lemma process_person_ok:
  "group_rows df nc k = Inr pd \<Longrightarrow>
   create_pdf_for_person E pd k out (columns df) = Inr path \<Longrightarrow>
   process_person E df nc out st k =
     Inr (st\<lparr>success_count := success_count st + 1, written := written st @ [path]\<rparr>)"
  by (simp add: process_person_def bind_exn_def)

lemma process_person_cases:
  assumes "StrLabel nc \<in> set (columns df)"
  obtains pd e where "group_rows df nc k = Inr pd"
      "create_pdf_for_person E pd k out (columns df) = Inl e"
      "process_person E df nc out st k = Inr (st\<lparr>error_count := error_count st + 1\<rparr>)"
  | pd path where "group_rows df nc k = Inr pd"
      "create_pdf_for_person E pd k out (columns df) = Inr path"
      "process_person E df nc out st k =
         Inr (st\<lparr>success_count := success_count st + 1, written := written st @ [path]\<rparr>)"
proof -
  from group_rows_total [OF assms] obtain pd where pd: "group_rows df nc k = Inr pd"
    by blast
  show ?thesis
  proof (cases "create_pdf_for_person E pd k out (columns df)")
    case (Inl e)
    with pd that(1) process_person_fail show ?thesis by blast
  next
    case (Inr path)
    with pd that(2) process_person_ok show ?thesis by blast
  qed
qed

lemma process_loop_append:
  "process_loop E df nc out st (xs @ ys) =
     bind_exn (process_loop E df nc out st xs) (\<lambda>st'. process_loop E df nc out st' ys)"
  by (induction xs arbitrary: st) (simp_all add: bind_exn_def split: sum.splits)

lemma process_loop_result:
  assumes nc: "StrLabel nc \<in> set (columns df)"
  shows "\<exists>fin. process_loop E df nc out st names = Inr fin \<and>
     success_count fin + error_count fin = success_count st + error_count st + length names \<and>
     set (written st) \<subseteq> set (written fin) \<and>
     (\<forall>k\<in>set names. \<forall>pd path. group_rows df nc k = Inr pd \<and>
        create_pdf_for_person E pd k out (columns df) = Inr path \<longrightarrow> path \<in> set (written fin))"
proof (induction names arbitrary: st)
  case Nil
  then show ?case by simp
next
  case (Cons k names)
  show ?case
  proof (rule process_person_cases [OF nc, of k E out st])
    fix pd e
    assume a: "group_rows df nc k = Inr pd"
      "create_pdf_for_person E pd k out (columns df) = Inl e"
      "process_person E df nc out st k = Inr (st\<lparr>error_count := error_count st + 1\<rparr>)"
    from Cons [of "st\<lparr>error_count := error_count st + 1\<rparr>"] a show ?thesis
      by (auto simp: bind_exn_def)
  next
    fix pd path
    assume a: "group_rows df nc k = Inr pd"
      "create_pdf_for_person E pd k out (columns df) = Inr path"
      "process_person E df nc out st k =
         Inr (st\<lparr>success_count := success_count st + 1, written := written st @ [path]\<rparr>)"
    from Cons [of "st\<lparr>success_count := success_count st + 1, written := written st @ [path]\<rparr>"] a
    show ?thesis
      by (auto simp: bind_exn_def)
  qed
qed

lemma process_loop_all_ok:
  assumes ok: "\<forall>k\<in>set names. \<exists>pd path. group_rows df nc k = Inr pd \<and>
        create_pdf_for_person E pd k out (columns df) = Inr path"
  shows "\<exists>fin. process_loop E df nc out st names = Inr fin \<and>
     error_count fin = error_count st \<and> success_count fin = success_count st + length names"
  using ok
proof (induction names arbitrary: st)
  case Nil
  then show ?case by simp
next
  case (Cons k names)
  from Cons.prems obtain pd path where a: "group_rows df nc k = Inr pd"
      "create_pdf_for_person E pd k out (columns df) = Inr path"
    by auto
  have rest: "\<forall>k\<in>set names. \<exists>pd path. group_rows df nc k = Inr pd \<and>
        create_pdf_for_person E pd k out (columns df) = Inr path"
    using Cons.prems by simp
  from Cons.IH [OF rest,
      of "st\<lparr>success_count := success_count st + 1, written := written st @ [path]\<rparr>"]
    process_person_ok [OF a, where st = st]
  show ?case
    by (auto simp: bind_exn_def)
qed

text \<open>
  Claim C9. If the render of the group \<open>k\<close> raises, the turn of the loop for \<open>k\<close> adds
  one to the error count and leaves the success count and the files written as they
  were, and the loop goes on: over the names \<open>pre @ k # post\<close> it ends normally, in
  the state reached by running the remaining names \<open>post\<close> from there; every name is
  counted once as a success or an error; every remaining group whose own render
  succeeds has its file among those written; when all the other groups succeed, the
  loop ends with exactly one error more and one success per other group; and the
  batch as a whole completes, with every unique name counted as a success or an error.
\<close>

theorem render_error_does_not_abort:
  assumes wf: "wf_df df" and nc: "StrLabel name_column \<in> set (columns df)"
    and grp: "group_rows df name_column k = Inr person_data"
    and fail: "create_pdf_for_person E person_data k output_dir (columns df) = Inl e"
  shows "process_person E df name_column output_dir st k
           = Inr (st\<lparr>error_count := error_count st + 1\<rparr>) \<and>
     (\<exists>st1 fin.
        process_loop E df name_column output_dir st pre = Inr st1 \<and>
        process_loop E df name_column output_dir st (pre @ k # post) = Inr fin \<and>
        process_loop E df name_column output_dir (st1\<lparr>error_count := error_count st1 + 1\<rparr>) post
          = Inr fin \<and>
        success_count fin + error_count fin
          = success_count st + error_count st + length pre + 1 + length post \<and>
        (\<forall>k'\<in>set post. \<forall>pd' path.
           group_rows df name_column k' = Inr pd' \<and>
           create_pdf_for_person E pd' k' output_dir (columns df) = Inr path
           \<longrightarrow> path \<in> set (written fin)) \<and>
        ((\<forall>k'\<in>set (pre @ post). \<exists>pd' path.
            group_rows df name_column k' = Inr pd' \<and>
            create_pdf_for_person E pd' k' output_dir (columns df) = Inr path)
         \<longrightarrow> error_count fin = error_count st + 1 \<and>
             success_count fin = success_count st + length pre + length post)) \<and>
     (\<exists>names res.
        unique_names df name_column = Inr names \<and>
        process_conversion E (Inr df) name_column output_dir = Complete res \<and>
        success_count res + error_count res = length names)"
proof -
  have one: "process_person E df name_column output_dir s k
           = Inr (s\<lparr>error_count := error_count s + 1\<rparr>)" for s
    using grp fail by (rule process_person_fail)
  from process_loop_result [OF nc, of E output_dir st pre] obtain st1 where
    st1: "process_loop E df name_column output_dir st pre = Inr st1"
      "success_count st1 + error_count st1 = success_count st + error_count st + length pre"
    by blast
  let ?st2 = "st1\<lparr>error_count := error_count st1 + 1\<rparr>"
  from process_loop_result [OF nc, of E output_dir ?st2 post] obtain fin where
    fin: "process_loop E df name_column output_dir ?st2 post = Inr fin"
      "success_count fin + error_count fin
         = success_count ?st2 + error_count ?st2 + length post"
      "\<forall>k'\<in>set post. \<forall>pd' path. group_rows df name_column k' = Inr pd' \<and>
         create_pdf_for_person E pd' k' output_dir (columns df) = Inr path
         \<longrightarrow> path \<in> set (written fin)"
    by blast
  have whole: "process_loop E df name_column output_dir st (pre @ k # post) = Inr fin"
    using st1(1) fin(1) one [of st1] by (simp add: process_loop_append bind_exn_def)
  have total: "success_count fin + error_count fin
          = success_count st + error_count st + length pre + 1 + length post"
    using st1(2) fin(2) by simp
  have exact: "error_count fin = error_count st + 1 \<and>
             success_count fin = success_count st + length pre + length post"
    if ok: "\<forall>k'\<in>set (pre @ post). \<exists>pd' path.
            group_rows df name_column k' = Inr pd' \<and>
            create_pdf_for_person E pd' k' output_dir (columns df) = Inr path"
  proof -
    have okpre: "\<forall>k'\<in>set pre. \<exists>pd' path. group_rows df name_column k' = Inr pd' \<and>
            create_pdf_for_person E pd' k' output_dir (columns df) = Inr path"
      and okpost: "\<forall>k'\<in>set post. \<exists>pd' path. group_rows df name_column k' = Inr pd' \<and>
            create_pdf_for_person E pd' k' output_dir (columns df) = Inr path"
      using ok by auto
    from process_loop_all_ok [OF okpre, of st] st1(1)
    have p: "error_count st1 = error_count st"
      "success_count st1 = success_count st + length pre"
      by auto
    from process_loop_all_ok [OF okpost, of ?st2] fin(1)
    have q: "error_count fin = error_count ?st2"
      "success_count fin = success_count ?st2 + length post"
      by auto
    from p q show ?thesis by simp
  qed
  have batch: "\<exists>names res.
        unique_names df name_column = Inr names \<and>
        process_conversion E (Inr df) name_column output_dir = Complete res \<and>
        success_count res + error_count res = length names"
  proof -
    from index_of_Some [OF nc] obtain p where
      "index_of (StrLabel name_column) (columns df) = Some p"
      by blast
    then obtain names where names: "unique_names df name_column = Inr names"
      by (simp add: unique_names_eq)
    from process_loop_result [OF nc, of E output_dir
        "\<lparr>success_count = 0, error_count = 0, written = []\<rparr>" names]
    obtain res where
      "process_loop E df name_column output_dir
         \<lparr>success_count = 0, error_count = 0, written = []\<rparr> names = Inr res"
      "success_count res + error_count res = length names"
      by auto
    with names nc show ?thesis
      by (simp add: process_conversion_def bind_exn_def)
  qed
  show ?thesis
    using one [of st] st1(1) whole fin(1) total fin(3) exact batch by blast
qed

theorem render_error_does_not_abort_witness:
  "wf_df people \<and> StrLabel (lit ''name'') \<in> set (columns people) \<and>
   group_rows people (lit ''name'') (Str (lit ''Bob'')) =
     Inr (people\<lparr>rows := [(1, [Str (lit ''Bob''), Obj (lit ''25''), Str (lit ''LA'')])]\<rparr>) \<and>
   create_pdf_for_person faulty_env
     (people\<lparr>rows := [(1, [Str (lit ''Bob''), Obj (lit ''25''), Str (lit ''LA'')])]\<rparr>)
     (Str (lit ''Bob'')) (lit ''out'') (columns people) = Inl (Raised (lit ''disk full'')) \<and>
   process_loop faulty_env people (lit ''name'') (lit ''out'')
     \<lparr>success_count = 0, error_count = 0, written = []\<rparr>
     ([Str (lit ''Alice'')] @ Str (lit ''Bob'') # [Str (lit ''Carol'')]) =
     Inr \<lparr>success_count = 2, error_count = 1,
          written = [lit ''out/Alice.pdf'', lit ''out/Carol.pdf'']\<rparr> \<and>
   process_conversion faulty_env (Inr people) (lit ''name'') (lit ''out'') =
     Complete \<lparr>success_count = 2, error_count = 1,
               written = [lit ''out/Alice.pdf'', lit ''out/Carol.pdf'']\<rparr>"
  using render_error_does_not_abort [where E = faulty_env and df = people
      and name_column = "lit ''name''" and k = "Str (lit ''Bob'')"
      and person_data =
        "people\<lparr>rows := [(1, [Str (lit ''Bob''), Obj (lit ''25''), Str (lit ''LA'')])]\<rparr>"
      and output_dir = "lit ''out''" and e = "Raised (lit ''disk full'')"
      and st = "\<lparr>success_count = 0, error_count = 0, written = []\<rparr>"
      and pre = "[Str (lit ''Alice'')]" and post = "[Str (lit ''Carol'')]"]
  by (simp add: eval_defs faulty_env_def)

section \<open>The missing key column\<close>

lemma sublist_join: "c \<in> set cols \<Longrightarrow> sublist c (join sep cols)"
proof (induction sep cols rule: join.induct)
  case (1 sep)
  then show ?case by simp
next
  case (2 sep x)
  then show ?case by simp
next
  case (3 sep x y ys)
  show ?case
  proof (cases "c = x")
    case True
    then show ?thesis by (simp add: sublist_append_rightI)
  next
    case False
    with 3 have "sublist c (join sep (y # ys))" by simp
    then have "sublist c ((x @ sep) @ join sep (y # ys))"
      by (metis sublist_append)
    then show ?thesis by simp
  qed
qed

lemma length_join:
  "length (join sep cols) = sum_list (map length cols) + length sep * (length cols - 1)"
  by (induction sep cols rule: join.induct) simp_all

lemma str_items_strings: "str_items (map StrLabel names) = Inr names"
  by (induction names) (simp_all add: bind_exn_def)

lemma str_items_non_string: "ObjLabel x \<in> set cols \<Longrightarrow> str_items cols = Inl TypeError"
  by (induction cols rule: str_items.induct) (auto simp: bind_exn_def)

text \<open>With a header that is not a string the callback raises, and no message is shown.\<close>

lemma no_message_with_non_string_header:
  "StrLabel K \<notin> set (columns T) \<Longrightarrow> ObjLabel x \<in> set (columns T) \<Longrightarrow>
   process_conversion E (Inr T) K out = DialogFailed TypeError"
  by (simp add: process_conversion_def column_not_found_message_def join_columns_def
      str_items_non_string bind_exn_def)

text \<open>
  Claim C6, as amended. When the requested key column \<open>K\<close> is not a column of \<open>T\<close>, the
  batch stops before the loop, whatever the environment: no group is rendered and no
  batch result is reached. When the column labels of \<open>T\<close> are all strings, the user
  is shown the column-not-found message:
  \<open>Column 'K' not found.\<close>, a line break, \<open>Available columns: \<close> and the column
  names of \<open>T\<close> in their order, joined by a comma and a space, one entry per column,
  so that the list is as long as the names and the separators between them. The
  message contains \<open>K\<close> and every column name.
\<close>

theorem missing_key_column_message:
  assumes "StrLabel K \<notin> set (columns T)"
  shows "process_conversion E' (Inr T) K out = process_conversion E (Inr T) K out \<and>
     (\<forall>res. process_conversion E (Inr T) K out \<noteq> Complete res) \<and>
     (\<forall>names. columns T = map StrLabel names \<longrightarrow>
        (\<exists>m. process_conversion E (Inr T) K out = ColumnNotFound m \<and>
           m = lit ''Column '' @ [39] @ K @ [39] @ lit '' not found.'' @ [10]
                 @ lit ''Available columns: '' @ join (lit '', '') names \<and>
           length (join (lit '', '') names)
             = sum_list (map length names) + 2 * (length names - 1) \<and>
           sublist K m \<and> (\<forall>c\<in>set names. sublist c m)))"
proof -
  have a: "process_conversion E (Inr T) K out =
      (case column_not_found_message K (columns T) of
         Inl e \<Rightarrow> DialogFailed e
       | Inr message \<Rightarrow> ColumnNotFound message)" for E :: "'a env"
    using assms by (simp add: process_conversion_def)
  have b: "\<forall>res. process_conversion E (Inr T) K out \<noteq> Complete res"
    by (simp add: a split: sum.splits)
  have d: "\<exists>m. process_conversion E (Inr T) K out = ColumnNotFound m \<and>
           m = lit ''Column '' @ [39] @ K @ [39] @ lit '' not found.'' @ [10]
                 @ lit ''Available columns: '' @ join (lit '', '') names \<and>
           length (join (lit '', '') names)
             = sum_list (map length names) + 2 * (length names - 1) \<and>
           sublist K m \<and> (\<forall>c\<in>set names. sublist c m)"
    if names: "columns T = map StrLabel names" for names
  proof -
    define m where "m = lit ''Column '' @ [39] @ K @ [39] @ lit '' not found.'' @ [10]
                 @ lit ''Available columns: '' @ join (lit '', '') names"
    have 1: "process_conversion E (Inr T) K out = ColumnNotFound m"
      by (simp add: a names column_not_found_message_def join_columns_def str_items_strings
          bind_exn_def m_def cp_def)
    have 2: "length (join (lit '', '') names)
             = sum_list (map length names) + 2 * (length names - 1)"
      by (simp add: length_join lit_def)
    have "sublist K ((lit ''Column '' @ [39]) @ K @ ([39] @ lit '' not found.'' @ [10]
                 @ lit ''Available columns: '' @ join (lit '', '') names))"
      by (rule sublist_appendI)
    then have 3: "sublist K m"
      by (simp add: m_def)
    have 4: "sublist c m" if "c \<in> set names" for c
    proof -
      have "sublist c (join (lit '', '') names)"
        using that by (rule sublist_join)
      moreover have "sublist (join (lit '', '') names)
          ((lit ''Column '' @ [39] @ K @ [39] @ lit '' not found.'' @ [10]
             @ lit ''Available columns: '') @ join (lit '', '') names @ [])"
        by (rule sublist_appendI)
      moreover have "m = (lit ''Column '' @ [39] @ K @ [39] @ lit '' not found.'' @ [10]
             @ lit ''Available columns: '') @ join (lit '', '') names @ []"
        by (simp add: m_def)
      ultimately show ?thesis
        using sublist_order.order_trans by metis
    qed
    from 1 2 3 4 show ?thesis
      unfolding m_def by blast
  qed
  show ?thesis
    using a [of E] a [of E'] b d by simp
qed

theorem missing_key_column_message_witness:
  "StrLabel (lit ''email'') \<notin> set (columns contacts) \<and>
   columns contacts = map StrLabel [lit ''name'', lit ''nickname''] \<and>
   process_conversion faulty_env (Inr contacts) (lit ''email'') (lit ''out'') =
     ColumnNotFound
       (lit ''Column '' @ [39] @ lit ''email'' @ [39] @ lit '' not found.'' @ [10]
          @ lit ''Available columns: name, nickname'') \<and>
   process_conversion sample_env (Inr contacts) (lit ''email'') (lit ''out'') =
     process_conversion faulty_env (Inr contacts) (lit ''email'') (lit ''out'')"
  using missing_key_column_message [where K = "lit ''email''" and T = contacts
      and E = faulty_env and E' = sample_env and out = "lit ''out''"]
  by (simp add: eval_defs faulty_env_def contacts_def)

text \<open>The claim as stated fails twice. With the columns \<open>name\<close> and \<open>nickname\<close> the
  message ends in \<open>Available columns: name, nickname\<close>, in which the column name
  \<open>name\<close> occurs twice. With the columns \<open>name\<close> and the number 2024, joining the
  labels raises \<open>TypeError\<close> in the queued callback, and there is no message.\<close>

theorem message_repeats_column_name:
  "StrLabel (lit ''email'') \<notin> set (columns contacts) \<and>
   StrLabel (lit ''name'') \<in> set (columns contacts) \<and>
   process_conversion sample_env (Inr contacts) (lit ''email'') (lit ''out'') =
     ColumnNotFound
       (lit ''Column '' @ [39] @ lit ''email'' @ [39] @ lit '' not found.'' @ [10]
          @ lit ''Available columns: name, nickname'') \<and>
   occurrences (lit ''name'')
     (lit ''Column '' @ [39] @ lit ''email'' @ [39] @ lit '' not found.'' @ [10]
        @ lit ''Available columns: name, nickname'') = 2 \<and>
   StrLabel (lit ''email'') \<notin> set (columns sales) \<and>
   process_conversion sample_env (Inr sales) (lit ''email'') (lit ''out'')
     = DialogFailed TypeError"
  by code_simp

end
